theory Spec2Isabelle
  imports Main "HOL-Library.Sublist"
begin

section \<open>JavaScript values and the lodash helpers the components use\<close>

text \<open>
  The values that can reach \<open>normalizeRecentUrlImages(urls: any)\<close>: whatever
  \<open>JSON.parse\<close> yields, plus \<open>undefined\<close>. The payload of a number is never
  inspected by the code below, so it is kept as an integer.
\<close>

datatype js_value =
    JUndefined
  | JNull
  | JBool bool
  | JNum int
  | JStr string
  | JArr "js_value list"
  | JObj "(string \<times> js_value) list"

datatype error = Error string

text \<open>\<open>_.isString\<close>, \<open>Array.isArray\<close> and \<open>_.isEmpty\<close>.\<close>

fun isString :: "js_value \<Rightarrow> bool" where
  "isString (JStr s) = True"
| "isString v = False"

fun isArray :: "js_value \<Rightarrow> bool" where
  "isArray (JArr xs) = True"
| "isArray v = False"

fun isEmpty :: "js_value \<Rightarrow> bool" where
  "isEmpty (JStr s) = (length s = 0)"
| "isEmpty (JArr xs) = (length xs = 0)"
| "isEmpty (JObj kvs) = (length kvs = 0)"
| "isEmpty v = True"

text \<open>\<open>_.reject(xs, p)\<close> is the opposite of \<open>_.filter\<close>.\<close>

definition reject :: "('a \<Rightarrow> bool) \<Rightarrow> 'a list \<Rightarrow> 'a list" where
  "reject p xs = filter (\<lambda>x. \<not> p x) xs"

text \<open>
  \<open>_.uniq\<close>: one pass from the left; a value is pushed onto the result unless
  the result already holds it, so the FIRST occurrence of a value is the one kept.
\<close>

fun uniq_loop :: "'a list \<Rightarrow> 'a list \<Rightarrow> 'a list" where
  "uniq_loop seen [] = seen"
| "uniq_loop seen (x # xs) =
     (if x \<in> set seen then uniq_loop seen xs else uniq_loop (seen @ [x]) xs)"

definition uniq :: "'a list \<Rightarrow> 'a list" where
  "uniq xs = uniq_loop [] xs"

text \<open>
  \<open>_.takeRight(xs, n)\<close>: the slice from \<open>length - n\<close> (clamped at 0) to the end.
\<close>

definition takeRight :: "nat \<Rightarrow> 'a list \<Rightarrow> 'a list" where
  "takeRight n xs = drop (if length xs < n then 0 else length xs - n) xs"

text \<open>\<open>_.startsWith(s, target)\<close>: the slice of \<open>s\<close> of the target's length equals the target.\<close>

definition startsWith :: "string \<Rightarrow> string \<Rightarrow> bool" where
  "startsWith s target = (take (length target) s = target)"

section \<open>The recent-URLs cache of the source selector\<close>

definition recentUrlImagesKey :: string where
  "recentUrlImagesKey = ''recentUrlImages''"

definition normalizeRecentUrlImages :: "js_value \<Rightarrow> js_value list" where
  "normalizeRecentUrlImages urls =
     (let urls' = (if \<not> isArray urls then [] else (case urls of JArr xs \<Rightarrow> xs | _ \<Rightarrow> []))
      in takeRight 5 (uniq (reject isEmpty (filter isString urls'))))"

text \<open>
  \<open>localStorage\<close> maps keys to strings. \<open>JSON.parse\<close> and \<open>JSON.stringify\<close> are
  built-ins of the runtime and are parameters of the model: \<open>parse\<close> either throws
  (\<open>Inl\<close>) or yields a value.
\<close>

type_synonym local_storage = "string \<rightharpoonup> string"

text \<open>\<open>localStorage.getItem(key) || '[]'\<close>: \<open>null\<close> and the empty string are falsy.\<close>

definition getItemOrDefault :: "local_storage \<Rightarrow> string \<Rightarrow> string" where
  "getItemOrDefault ls k =
     (case ls k of None \<Rightarrow> ''[]'' | Some s \<Rightarrow> (if s = [] then ''[]'' else s))"

definition getRecentUrlImages ::
  "(string \<Rightarrow> error + js_value) \<Rightarrow> local_storage \<Rightarrow> js_value list" where
  "getRecentUrlImages parse ls =
     (let urls = (case parse (getItemOrDefault ls recentUrlImagesKey) of
                    Inl e \<Rightarrow> JArr []
                  | Inr v \<Rightarrow> v)
      in normalizeRecentUrlImages urls)"

definition setRecentUrlImages ::
  "(js_value \<Rightarrow> string) \<Rightarrow> js_value \<Rightarrow> local_storage \<Rightarrow> local_storage" where
  "setRecentUrlImages stringify urls ls =
     ls(recentUrlImagesKey \<mapsto> stringify (JArr (normalizeRecentUrlImages urls)))"

text \<open>
  The \<open>done\<close> handler of \<open>URLSelector\<close>: the submitted URL is appended to the
  recent list held in the component state (\<open>sanitizedRecentUrls\<close>), and the
  normalized list is persisted.
\<close>

definition sanitizedRecentUrls :: "js_value list \<Rightarrow> string \<Rightarrow> js_value list" where
  "sanitizedRecentUrls recentImages imageURL =
     normalizeRecentUrlImages (JArr (recentImages @ [JStr imageURL]))"

definition urlSelectorDone ::
  "(js_value \<Rightarrow> string) \<Rightarrow> js_value list \<Rightarrow> string \<Rightarrow> local_storage \<Rightarrow> local_storage" where
  "urlSelectorDone stringify recentImages imageURL ls =
     setRecentUrlImages stringify (JArr (sanitizedRecentUrls recentImages imageURL)) ls"

text \<open>A non-empty string value.\<close>

fun nonEmptyString :: "js_value \<Rightarrow> bool" where
  "nonEmptyString (JStr s) = (s \<noteq> [])"
| "nonEmptyString v = False"

section \<open>The source selector\<close>

text \<open>
  What the SDK hands back (\<open>sourceDestination.Metadata\<close>): only optional fields,
  none of which the selector computes with. \<open>SourceMetadata\<close> extends it with the
  fields the selector fills in; a field not yet assigned (\<open>undefined\<close>) is
  \<open>None\<close>, and for the boolean \<open>hasMBR\<close> it is the falsy \<open>False\<close>.
\<close>

record Metadata =
  md_size :: "nat option"
  md_name :: "string option"
  md_logo :: "string option"
  md_blockMap :: "string option"

datatype partition = Partition (offset: nat) (psize: nat)

datatype PartitionTable = PartitionTable (pt_partitions: "partition list")

record SourceMetadata = Metadata +
  hasMBR :: bool
  partitions :: "partition list option"
  path :: string
  extension :: "string option"

datatype Source = File | BlockDevice | Http

record SourceOptions =
  imagePath :: string
  SourceType :: Source

record Warning =
  message :: string
  title :: "string option"

datatype user_error = UserError (err_title: string) (err_description: string)

text \<open>
  An SDK source, as far as \<open>getMetadata\<close> uses it: what its two asynchronous calls
  give, each either rejecting (\<open>Inl\<close>) or resolving. \<open>getPartitionTable\<close> resolves
  to \<open>undefined\<close> (\<open>None\<close>) when the image has no partition table.
\<close>

record sdk_source =
  source_getMetadata :: "error + Metadata"
  source_getPartitionTable :: "error + PartitionTable option"

text \<open>
  The collaborators of the selector that live outside the component: the SDK, the
  message catalogue, Node's \<open>path\<close> module, the Windows network drive lookup and the
  validation the shared store applies to an image. They are parameters.
  \<open>getInnerSource\<close> is the call \<open>source.getInnerSource()\<close> on the source that
  \<open>new sourceDestination.File({ path })\<close> or \<open>new sourceDestination.Http({ url })\<close>
  built (the constructors only record their argument), given its kind and path;
  \<open>store_rejects\<close> is the error, if any, that \<open>selectionState.selectImage\<close> throws.
\<close>

record env =
  replaceWindowsNetworkDriveLetter :: "string \<Rightarrow> error + string"
  looksLikeWindowsImage :: "string \<Rightarrow> bool"
  warning_looksLikeWindowsImage :: string
  warning_missingPartitionTable :: string
  error_unsupportedProtocol :: string
  error_openImage :: "string \<Rightarrow> string \<Rightarrow> string"
  extname :: "string \<Rightarrow> string"
  basename :: "string \<Rightarrow> string"
  getInnerSource :: "Source \<Rightarrow> string \<Rightarrow> error + sdk_source"
  store_rejects :: "SourceMetadata \<Rightarrow> error option"

text \<open>
  Everything the selector reads or changes: the image held by the shared selection
  state, the component's \<open>warning\<close> state, the error dialogs shown, the analytics
  log, the exceptions reported, and the calls of the \<open>afterSelected\<close> prop.
\<close>

record world =
  selectedImage :: "SourceMetadata option"
  warning :: "Warning option"
  shownErrors :: "user_error list"
  analyticsEvents :: "string list"
  loggedExceptions :: "error list"
  reportedExceptions :: "error list"
  afterSelectedCalls :: "SourceOptions list"

definition logEvent :: "string \<Rightarrow> world \<Rightarrow> world" where
  "logEvent name w = w\<lparr>analyticsEvents := analyticsEvents w @ [name]\<rparr>"

definition logException :: "error \<Rightarrow> world \<Rightarrow> world" where
  "logException e w = w\<lparr>loggedExceptions := loggedExceptions w @ [e]\<rparr>"

definition report :: "error \<Rightarrow> world \<Rightarrow> world" where
  "report e w = w\<lparr>reportedExceptions := reportedExceptions w @ [e]\<rparr>"

definition showError :: "user_error \<Rightarrow> world \<Rightarrow> world" where
  "showError e w = w\<lparr>shownErrors := shownErrors w @ [e]\<rparr>"

text \<open>
  Modelled from the spec: \<open>selectionState.selectImage\<close> of the shared store, which
  is not part of the excerpt. The selection state holds the currently selected
  source; selecting stores the image, unless the store's validation throws.
\<close>

definition store_selectImage :: "env \<Rightarrow> SourceMetadata \<Rightarrow> world \<Rightarrow> error + world" where
  "store_selectImage en img w =
     (case store_rejects en img of
        Some e \<Rightarrow> Inl e
      | None \<Rightarrow> Inr (w\<lparr>selectedImage := Some img\<rparr>))"

text \<open>JavaScript truthiness of \<open>message\<close>, a string or \<open>null\<close>.\<close>

fun truthy :: "string option \<Rightarrow> bool" where
  "truthy None = False"
| "truthy (Some s) = (s \<noteq> [])"

text \<open>
  \<open>SourceSelector.selectImage\<close>. The body is one \<open>try\<close> block; the only call in it
  that throws is the store's, and the \<open>catch\<close> reports the exception.
\<close>

definition selectImage :: "env \<Rightarrow> SourceMetadata \<Rightarrow> world \<Rightarrow> world" where
  "selectImage en img w =
     (let (msg, ttl, w1) =
        (if looksLikeWindowsImage en (path img) then
           (Some (warning_looksLikeWindowsImage en),
            Some ''Possible Windows image detected'',
            logEvent ''Possibly Windows image'' w)
         else if \<not> hasMBR img then
           (Some (warning_missingPartitionTable en),
            Some ''Missing partition table'',
            logEvent ''Missing partition table'' w)
         else (None, None, w));
          w2 = (case msg of
                  Some m \<Rightarrow> (if truthy msg
                             then w1\<lparr>warning := Some \<lparr>message = m, title = ttl\<rparr>\<rparr>
                             else w1)
                | None \<Rightarrow> w1)
      in case store_selectImage en img w2 of
           Inl e \<Rightarrow> report e w2
         | Inr w3 \<Rightarrow> logEvent ''Select image'' w3)"

text \<open>The cast \<open>as SourceMetadata\<close> of the SDK's metadata object.\<close>

definition asSourceMetadata :: "Metadata \<Rightarrow> SourceMetadata" where
  "asSourceMetadata m =
     \<lparr>md_size = md_size m, md_name = md_name m, md_logo = md_logo m,
      md_blockMap = md_blockMap m,
      hasMBR = False, partitions = None, path = [], extension = None\<rparr>"

text \<open>\<open>SourceSelector.getMetadata\<close>: a rejection of either SDK call propagates.\<close>

definition getMetadata :: "sdk_source \<Rightarrow> string \<Rightarrow> error + SourceMetadata" where
  "getMetadata source sourcePath =
     (case source_getMetadata source of
        Inl e \<Rightarrow> Inl e
      | Inr m \<Rightarrow>
          (case source_getPartitionTable source of
             Inl e \<Rightarrow> Inl e
           | Inr partitionTable \<Rightarrow>
               (let metadata = asSourceMetadata m;
                    metadata1 =
                      (case partitionTable of
                         Some pt \<Rightarrow>
                           metadata\<lparr>hasMBR := True, partitions := Some (pt_partitions pt)\<rparr>
                       | None \<Rightarrow> metadata\<lparr>hasMBR := False\<rparr>)
                in Inr (metadata1\<lparr>path := sourcePath\<rparr>))))"

definition handleError :: "env \<Rightarrow> string \<Rightarrow> string \<Rightarrow> error \<Rightarrow> world \<Rightarrow> world" where
  "handleError en ttl sourcePath e w =
     logException e
       (showError
          (UserError ttl (error_openImage en sourcePath (case e of Error m \<Rightarrow> m))) w)"

text \<open>
  The second \<open>try\<close> block of \<open>selectImageByPath\<close>, for the source built before
  it (\<open>sourceKind\<close> is the class that was instantiated): get the inner source,
  read its metadata, select the image, call \<open>afterSelected\<close> with the path and
  the \<open>SourceType\<close> the caller gave. Closing the source in \<open>finally\<close> swallows its
  own errors and changes nothing modelled here.
\<close>

definition openAndSelect :: "env \<Rightarrow> Source \<Rightarrow> SourceOptions \<Rightarrow> world \<Rightarrow> world" where
  "openAndSelect en sourceKind opts w =
     (case getInnerSource en sourceKind (imagePath opts) of
        Inl e \<Rightarrow> handleError en ''Error opening image'' (basename en (imagePath opts)) e w
      | Inr innerSource \<Rightarrow>
          (case getMetadata innerSource (imagePath opts) of
             Inl e \<Rightarrow>
               handleError en ''Error opening image'' (basename en (imagePath opts)) e w
           | Inr metadata \<Rightarrow>
               (let metadata1 =
                      metadata\<lparr>extension := Some (drop 1 (extname en (imagePath opts)))\<rparr>;
                    w1 = selectImage en metadata1 w
                in w1\<lparr>afterSelectedCalls := afterSelectedCalls w1 @ [opts]\<rparr>)))"

text \<open>
  The first step of \<open>selectImageByPath\<close> reassigns \<open>imagePath\<close>: the path with a
  Windows network drive letter replaced, or the path as given when the lookup
  throws.
\<close>

definition replacedPath :: "env \<Rightarrow> string \<Rightarrow> string" where
  "replacedPath en p =
     (case replaceWindowsNetworkDriveLetter en p of Inl e \<Rightarrow> p | Inr q \<Rightarrow> q)"

definition selectImageByPath :: "env \<Rightarrow> SourceOptions \<Rightarrow> world \<Rightarrow> world" where
  "selectImageByPath en opts w =
     (let w1 = (case replaceWindowsNetworkDriveLetter en (imagePath opts) of
                  Inl e \<Rightarrow> logException e w
                | Inr q \<Rightarrow> w);
          imagePath1 = replacedPath en (imagePath opts);
          opts1 = opts\<lparr>imagePath := imagePath1\<rparr>
      in if SourceType opts = File then openAndSelect en File opts1 w1
         else if \<not> startsWith imagePath1 ''https://'' \<and> \<not> startsWith imagePath1 ''http://''
         then logEvent ''Unsupported protocol''
                (showError
                   (UserError ''Unsupported protocol'' (error_unsupportedProtocol en)) w1)
         else openAndSelect en Http opts1 w1)"

text \<open>
  The value of \<open>this\<close> in the body of a method: the component, when the method is
  called on it, or whatever object the caller of a detached method supplies.
\<close>

datatype this_value = ThisComponent | ThisIpcRenderer

text \<open>
  \<open>SourceSelector.onSelectImage\<close>. It computes \<open>isURL\<close>, then calls
  \<open>this.selectImageByPath\<close> with the options. Only the component has that
  method: on any other \<open>this\<close> the property is \<open>undefined\<close>, the call throws a
  \<open>TypeError\<close> and the promise of the \<open>async\<close> method rejects (\<open>Inl\<close>).
\<close>

definition onSelectImage :: "this_value \<Rightarrow> env \<Rightarrow> string \<Rightarrow> world \<Rightarrow> error + world" where
  "onSelectImage thisArg en p w =
     (let isURL = (startsWith p ''https://'' \<or> startsWith p ''http://'');
          opts = \<lparr>imagePath = p, SourceType = (if isURL then Http else File)\<rparr>
      in case thisArg of
           ThisComponent \<Rightarrow> Inr (selectImageByPath en opts w)
         | ThisIpcRenderer \<Rightarrow>
             Inl (Error ''TypeError: this.selectImageByPath is not a function''))"

text \<open>
  A path delivered on the \<open>select-image\<close> channel. \<open>componentDidMount\<close> registers
  the listener with \<open>ipcRenderer.on('select-image', this.onSelectImage)\<close>: the
  method detached from the component, which the constructor does not bind. The
  emitter calls a listener with \<open>this\<close> set to itself.
\<close>

definition deliverSelectImage :: "env \<Rightarrow> string \<Rightarrow> world \<Rightarrow> error + world" where
  "deliverSelectImage en p w = onSelectImage ThisIpcRenderer en p w"

section \<open>The target selector\<close>

text \<open>
  Of a \<open>DrivelistDrive\<close>, \<open>selectAllTargets\<close> reads the \<open>device\<close> field only.
\<close>

record drive =
  device :: string

text \<open>
  The shared selection state as the target selector sees it, with the
  \<open>Toggle drive\<close> analytics events (the drive and \<open>previouslySelected\<close>).
\<close>

record target_state =
  selectedDevices :: "string list"
  toggleEvents :: "(drive \<times> bool) list"

text \<open>
  Modelled from the spec: the selection-state store's \<open>getSelectedDrives\<close>,
  \<open>isDriveSelected\<close>, \<open>selectDrive\<close> and \<open>deselectDrive\<close>, which are not part of the
  excerpt. The store holds the currently selected targets; \<open>selectDrive\<close> adds a
  device to the selection and \<open>deselectDrive\<close> removes it.
\<close>

definition getSelectedDrives :: "target_state \<Rightarrow> drive list" where
  "getSelectedDrives st = map (\<lambda>d. \<lparr>device = d\<rparr>) (selectedDevices st)"

definition isDriveSelected :: "string \<Rightarrow> target_state \<Rightarrow> bool" where
  "isDriveSelected d st = (d \<in> set (selectedDevices st))"

definition selectDrive :: "string \<Rightarrow> target_state \<Rightarrow> target_state" where
  "selectDrive d st =
     (if d \<in> set (selectedDevices st) then st
      else st\<lparr>selectedDevices := selectedDevices st @ [d]\<rparr>)"

definition deselectDrive :: "string \<Rightarrow> target_state \<Rightarrow> target_state" where
  "deselectDrive d st = st\<lparr>selectedDevices := removeAll d (selectedDevices st)\<rparr>"

definition logToggle :: "drive \<Rightarrow> bool \<Rightarrow> target_state \<Rightarrow> target_state" where
  "logToggle d previouslySelected st =
     st\<lparr>toggleEvents := toggleEvents st @ [(d, previouslySelected)]\<rparr>"

definition deselectStep :: "drive \<Rightarrow> target_state \<Rightarrow> target_state" where
  "deselectStep d st = deselectDrive (device d) (logToggle d True st)"

definition selectStep :: "drive \<Rightarrow> target_state \<Rightarrow> target_state" where
  "selectStep d st =
     selectDrive (device d)
       (if \<not> isDriveSelected (device d) st then logToggle d False st else st)"

definition selectAllTargets :: "drive list \<Rightarrow> target_state \<Rightarrow> target_state" where
  "selectAllTargets modalTargets st =
     (let selectedDrivesFromState = getSelectedDrives st;
          deselected =
            filter
              (\<lambda>d. find (\<lambda>modalTarget. device modalTarget = device d) modalTargets = None)
              selectedDrivesFromState;
          st1 = fold deselectStep deselected st
      in fold selectStep modalTargets st1)"

section \<open>The settings dialog\<close>

text \<open>
  \<open>currentSettings\<close> is the component's copy of the settings, a dictionary of
  booleans; reading a key it does not hold gives \<open>undefined\<close> (\<open>None\<close>), and
  \<open>!undefined\<close> is \<open>true\<close>.
\<close>

fun js_not :: "bool option \<Rightarrow> bool" where
  "js_not None = True"
| "js_not (Some b) = (\<not> b)"

record settings_state =
  settingsStore :: "string \<rightharpoonup> bool"
  currentSettings :: "string \<rightharpoonup> bool"
  settingEvents :: "(string \<times> bool option \<times> bool) list"

text \<open>
  Modelled from the spec: \<open>settings.set\<close> of the key-value settings store, which is
  not part of the excerpt. It writes the value under the key; \<open>persist\<close> is the
  error, if any, with which the write rejects.
\<close>

definition settings_set ::
  "(string \<Rightarrow> bool \<Rightarrow> error option) \<Rightarrow> string \<Rightarrow> bool \<Rightarrow> (string \<rightharpoonup> bool)
     \<Rightarrow> error + (string \<rightharpoonup> bool)" where
  "settings_set persist k v store =
     (case persist k v of Some e \<Rightarrow> Inl e | None \<Rightarrow> Inr (store(k \<mapsto> v)))"

text \<open>
  \<open>toggleSetting\<close>: \<open>options\<close> is the optional confirmation text of a setting. When
  the awaited write rejects, the handler rejects and the local state is not set.
\<close>

definition toggleSetting ::
  "(string \<Rightarrow> bool \<Rightarrow> error option) \<Rightarrow> string \<Rightarrow> (string \<times> string) option
     \<Rightarrow> settings_state \<Rightarrow> error + settings_state" where
  "toggleSetting persist setting options st =
     (let v = currentSettings st setting;
          dangerous = (options \<noteq> None);
          st1 = st\<lparr>settingEvents := settingEvents st @ [(setting, v, dangerous)]\<rparr>
      in case settings_set persist setting (js_not v) (settingsStore st1) of
           Inl e \<Rightarrow> Inl e
         | Inr store \<Rightarrow>
             Inr (st1\<lparr>settingsStore := store,
                      currentSettings := (currentSettings st)(setting \<mapsto> js_not v)\<rparr>))"

section \<open>A concrete environment for running the model\<close>

text \<open>
  Stand-ins for the collaborators, used only to evaluate the model on concrete
  inputs: no network drive is replaced, one file name counts as a Windows image,
  the store accepts every image, and the SDK opens every source.
\<close>

definition exampleEnv :: env where
  "exampleEnv =
     \<lparr>replaceWindowsNetworkDriveLetter = (\<lambda>p. Inr p),
      looksLikeWindowsImage = (\<lambda>p. p = ''windows.iso''),
      warning_looksLikeWindowsImage = ''It looks like a Windows image'',
      warning_missingPartitionTable = ''It looks like this is not a bootable image'',
      error_unsupportedProtocol = ''Only http:// and https:// URLs are supported'',
      error_openImage = (\<lambda>p m. p @ '': '' @ m),
      extname = (\<lambda>p. ''.img''),
      basename = (\<lambda>p. p),
      getInnerSource =
        (\<lambda>t p. Inr \<lparr>source_getMetadata =
                        Inr \<lparr>md_size = Some 1024, md_name = None, md_logo = None,
                             md_blockMap = None\<rparr>,
                      source_getPartitionTable = Inr None\<rparr>),
      store_rejects = (\<lambda>m. None)\<rparr>"

definition exampleImage :: "string \<Rightarrow> bool \<Rightarrow> SourceMetadata" where
  "exampleImage p mbr =
     \<lparr>md_size = Some 1024, md_name = None, md_logo = None, md_blockMap = None,
      hasMBR = mbr, partitions = None, path = p, extension = Some ''iso''\<rparr>"

definition initialWorld :: world where
  "initialWorld =
     \<lparr>selectedImage = None, warning = None, shownErrors = [], analyticsEvents = [],
      loggedExceptions = [], reportedExceptions = [], afterSelectedCalls = []\<rparr>"

section \<open>Properties of the list helpers\<close>

lemma uniq_loop_set: "set (uniq_loop seen xs) = set seen \<union> set xs"
  by (induction xs arbitrary: seen) auto

lemma uniq_loop_distinct: "distinct seen \<Longrightarrow> distinct (uniq_loop seen xs)"
  by (induction xs arbitrary: seen) auto

lemma uniq_loop_fixed: "distinct (seen @ xs) \<Longrightarrow> uniq_loop seen xs = seen @ xs"
  by (induction xs arbitrary: seen) auto

lemma uniq_loop_snoc:
  "uniq_loop seen (xs @ [x]) =
     (if x \<in> set (uniq_loop seen xs) then uniq_loop seen xs else uniq_loop seen xs @ [x])"
  by (induction xs arbitrary: seen) auto

lemma uniq_set: "set (uniq xs) = set xs"
  by (simp add: uniq_def uniq_loop_set)

lemma uniq_distinct: "distinct (uniq xs)"
  by (simp add: uniq_def uniq_loop_distinct)

lemma uniq_fixed: "distinct xs \<Longrightarrow> uniq xs = xs"
  using uniq_loop_fixed [of "[]" xs] by (simp add: uniq_def)

lemma uniq_snoc_present: "x \<in> set xs \<Longrightarrow> uniq (xs @ [x]) = uniq xs"
  by (simp add: uniq_def uniq_loop_snoc uniq_loop_set)

lemma takeRight_length: "length (takeRight n xs) \<le> n"
  by (simp add: takeRight_def)

lemma takeRight_set: "set (takeRight n xs) \<subseteq> set xs"
  by (simp add: takeRight_def set_drop_subset)

lemma takeRight_distinct: "distinct xs \<Longrightarrow> distinct (takeRight n xs)"
  by (simp add: takeRight_def)

lemma takeRight_short: "length xs \<le> n \<Longrightarrow> takeRight n xs = xs"
  by (simp add: takeRight_def)

lemma nonEmptyString_iff: "nonEmptyString v \<longleftrightarrow> isString v \<and> \<not> isEmpty v"
  by (cases v) auto

lemma reject_filter_strings:
  "reject isEmpty (filter isString xs) = filter nonEmptyString xs"
  by (induction xs) (simp_all add: reject_def nonEmptyString_iff)

lemma normalize_cases:
  "normalizeRecentUrlImages (JArr xs) = takeRight 5 (uniq (filter nonEmptyString xs))"
  "\<not> isArray v \<Longrightarrow> normalizeRecentUrlImages v = []"
  by (simp_all add: normalizeRecentUrlImages_def reject_filter_strings)
       (simp_all add: reject_def takeRight_def uniq_def)

lemma normalize_length: "length (normalizeRecentUrlImages v) \<le> 5"
  by (simp add: normalizeRecentUrlImages_def takeRight_length)

lemma normalize_distinct: "distinct (normalizeRecentUrlImages v)"
  by (simp add: normalizeRecentUrlImages_def takeRight_distinct uniq_distinct)

lemma normalize_strings:
  "x \<in> set (normalizeRecentUrlImages v) \<Longrightarrow> nonEmptyString x"
proof (cases "isArray v")
  case True
  assume x: "x \<in> set (normalizeRecentUrlImages v)"
  from True obtain xs where v: "v = JArr xs" by (cases v) auto
  from x have "x \<in> set (uniq (filter nonEmptyString xs))"
    using takeRight_set [of 5 "uniq (filter nonEmptyString xs)"]
    by (auto simp: v normalize_cases(1))
  then show ?thesis by (simp add: uniq_set)
next
  case False
  assume "x \<in> set (normalizeRecentUrlImages v)"
  with False show ?thesis by (simp add: normalize_cases(2))
qed

lemma normalize_fixed:
  assumes "length xs \<le> 5" and "distinct xs" and "\<forall>x\<in>set xs. nonEmptyString x"
  shows "normalizeRecentUrlImages (JArr xs) = xs"
proof -
  from assms(3) have "filter nonEmptyString xs = xs" by (simp add: filter_id_conv)
  with assms(1,2) show ?thesis
    by (simp add: normalize_cases(1) uniq_fixed takeRight_short)
qed

lemma startsWith_prefix: "startsWith s t \<longleftrightarrow> prefix t s"
  unfolding startsWith_def
  by (metis append_take_drop_id prefix_def append_eq_conv_conj)

section \<open>The recent-URLs cache: the claims\<close>

text \<open>
  Claim C1. For every input value, \<open>normalizeRecentUrlImages\<close> returns a list of at
  most 5 entries, each a non-empty string, with no duplicates; and what
  \<open>setRecentUrlImages\<close> persists under the cache's key is the serialization of such
  a list, so the cache never holds more than 5 distinct non-empty URL strings.
\<close>

theorem normalizeRecentUrlImages_capped:
  "length (normalizeRecentUrlImages v) \<le> 5
   \<and> distinct (normalizeRecentUrlImages v)
   \<and> (\<forall>x \<in> set (normalizeRecentUrlImages v). \<exists>s. x = JStr s \<and> s \<noteq> [])
   \<and> setRecentUrlImages stringify v ls recentUrlImagesKey
       = Some (stringify (JArr (normalizeRecentUrlImages v)))"
proof -
  have "\<exists>s. x = JStr s \<and> s \<noteq> []" if "x \<in> set (normalizeRecentUrlImages v)" for x
    using normalize_strings [OF that] by (cases x) auto
  then show ?thesis
    by (simp add: normalize_length normalize_distinct setRecentUrlImages_def)
qed

text \<open>
  An input with a number, an empty string, \<open>null\<close>, a nested array, a duplicate and
  six distinct URLs: the last five distinct URLs remain.
\<close>

theorem normalizeRecentUrlImages_capped_witness:
  "normalizeRecentUrlImages
     (JArr [JStr ''u1'', JNum 7, JStr '''', JStr ''u2'', JStr ''u1'', JNull, JStr ''u3'',
            JStr ''u4'', JStr ''u5'', JStr ''u6'', JArr [JStr ''u7'']])
   = [JStr ''u2'', JStr ''u3'', JStr ''u4'', JStr ''u5'', JStr ''u6'']
   \<and> length (normalizeRecentUrlImages
     (JArr [JStr ''u1'', JNum 7, JStr '''', JStr ''u2'', JStr ''u1'', JNull, JStr ''u3'',
            JStr ''u4'', JStr ''u5'', JStr ''u6'', JArr [JStr ''u7'']])) \<le> 5"
  using normalizeRecentUrlImages_capped
    [of "JArr [JStr ''u1'', JNum 7, JStr '''', JStr ''u2'', JStr ''u1'', JNull, JStr ''u3'',
            JStr ''u4'', JStr ''u5'', JStr ''u6'', JArr [JStr ''u7'']]"]
  by (simp add: normalizeRecentUrlImages_def reject_def uniq_def takeRight_def)

text \<open>
  Claim C9. \<open>normalizeRecentUrlImages\<close> is idempotent: applied to its own output
  (as an array), it returns that output unchanged.
\<close>

theorem normalizeRecentUrlImages_idempotent:
  "normalizeRecentUrlImages (JArr (normalizeRecentUrlImages v)) = normalizeRecentUrlImages v"
  by (rule normalize_fixed) (auto simp: normalize_length normalize_distinct normalize_strings)

text \<open>
  Claim C8. \<open>getRecentUrlImages\<close> is total over the storage content: whatever the
  key holds (nothing, malformed JSON on which \<open>JSON.parse\<close> throws, or JSON of any
  shape), it returns a list of at most 5 distinct non-empty strings, and it returns
  the empty list when parsing throws. The exception of \<open>JSON.parse\<close> is the \<open>Inl\<close>
  branch, which the \<open>catch\<close> turns into the initial \<open>[]\<close>.
\<close>

theorem getRecentUrlImages_total:
  "length (getRecentUrlImages parse ls) \<le> 5
   \<and> distinct (getRecentUrlImages parse ls)
   \<and> (\<forall>x \<in> set (getRecentUrlImages parse ls). \<exists>s. x = JStr s \<and> s \<noteq> [])
   \<and> (isl (parse (getItemOrDefault ls recentUrlImagesKey)) \<longrightarrow> getRecentUrlImages parse ls = [])"
proof -
  have "\<exists>s. x = JStr s \<and> s \<noteq> []" if "x \<in> set (normalizeRecentUrlImages v)" for x v
    using normalize_strings [OF that] by (cases x) auto
  moreover have "normalizeRecentUrlImages (JArr []) = []"
    by (simp add: normalize_cases(1) uniq_def takeRight_def)
  ultimately show ?thesis
    by (auto simp: getRecentUrlImages_def normalize_length normalize_distinct
        split: sum.splits)
qed

text \<open>
  Malformed JSON on which the parser throws; JSON that is an object, not an array;
  and an absent key with an array holding a boolean and a duplicate.
\<close>

theorem getRecentUrlImages_total_witness:
  "getRecentUrlImages (\<lambda>s. Inl (Error ''SyntaxError''))
     (Map.empty(recentUrlImagesKey \<mapsto> ''{broken'')) = []
   \<and> getRecentUrlImages
       (\<lambda>s. if s = ''[]'' then Inr (JArr []) else Inr (JObj []))
       (Map.empty(recentUrlImagesKey \<mapsto> ''{}'')) = []
   \<and> getRecentUrlImages
       (\<lambda>s. Inr (JArr [JStr ''u1'', JBool True, JStr ''u1'', JStr ''u2'']))
       Map.empty = [JStr ''u1'', JStr ''u2'']"
  using
    getRecentUrlImages_total [of "\<lambda>s. Inl (Error ''SyntaxError'')"
      "Map.empty(recentUrlImagesKey \<mapsto> ''{broken'')"]
    getRecentUrlImages_total
      [of "\<lambda>s. Inr (JArr [JStr ''u1'', JBool True, JStr ''u1'', JStr ''u2''])" Map.empty]
  by (simp add: getRecentUrlImages_def normalizeRecentUrlImages_def reject_def uniq_def
      takeRight_def getItemOrDefault_def recentUrlImagesKey_def)

text \<open>
  Claim C5, as amended. When the recent list is the one the component read with
  \<open>getRecentUrlImages\<close> and the submitted URL is already in it, appending and
  normalizing gives the same list back: the URL stays in the list, at the position
  it had. \<open>_.uniq\<close> keeps the first occurrence, so the entry is not moved to the
  most-recent end.
\<close>

theorem recent_url_resubmitted:
  assumes "recent = getRecentUrlImages parse ls" and "JStr url \<in> set recent"
  shows "sanitizedRecentUrls recent url = recent
         \<and> JStr url \<in> set (sanitizedRecentUrls recent url)"
proof -
  obtain v where r: "recent = normalizeRecentUrlImages v"
    using assms(1) by (auto simp: getRecentUrlImages_def Let_def)
  have ne: "filter nonEmptyString recent = recent"
    unfolding r by (simp add: filter_id_conv normalize_strings)
  have "nonEmptyString (JStr url)"
    using assms(2) unfolding r by (rule normalize_strings)
  then have "filter nonEmptyString (recent @ [JStr url]) = recent @ [JStr url]"
    using ne by simp
  then have "sanitizedRecentUrls recent url = takeRight 5 (uniq (recent @ [JStr url]))"
    by (simp add: sanitizedRecentUrls_def normalize_cases(1))
  also have "\<dots> = takeRight 5 (uniq recent)"
    using assms(2) by (simp add: uniq_snoc_present)
  also have "\<dots> = recent"
    unfolding r by (simp add: uniq_fixed normalize_distinct takeRight_short normalize_length)
  finally show ?thesis using assms(2) by simp
qed

theorem recent_url_resubmitted_witness:
  "sanitizedRecentUrls [JStr ''u1'', JStr ''u2''] ''u1'' = [JStr ''u1'', JStr ''u2'']"
  using recent_url_resubmitted
    [of "[JStr ''u1'', JStr ''u2'']" "\<lambda>s. Inr (JArr [JStr ''u1'', JStr ''u2''])" Map.empty "''u1''"]
  by (simp add: getRecentUrlImages_def normalizeRecentUrlImages_def reject_def uniq_def
      takeRight_def)

text \<open>
  Claim C5 as stated fails: a re-submitted URL is not treated as the most recent
  entry. With five recent URLs, submitting the oldest again leaves it first in the
  list (the most recent end is the last position), and the next new URL evicts
  it, although it is the entry used last.
\<close>

theorem recent_url_not_lru_counterexample:
  "sanitizedRecentUrls [JStr ''u1'', JStr ''u2'', JStr ''u3'', JStr ''u4'', JStr ''u5''] ''u1''
     = [JStr ''u1'', JStr ''u2'', JStr ''u3'', JStr ''u4'', JStr ''u5'']
   \<and> last (sanitizedRecentUrls
        [JStr ''u1'', JStr ''u2'', JStr ''u3'', JStr ''u4'', JStr ''u5''] ''u1'') \<noteq> JStr ''u1''
   \<and> sanitizedRecentUrls
        (sanitizedRecentUrls
           [JStr ''u1'', JStr ''u2'', JStr ''u3'', JStr ''u4'', JStr ''u5''] ''u1'') ''u6''
     = [JStr ''u2'', JStr ''u3'', JStr ''u4'', JStr ''u5'', JStr ''u6'']"
  by (simp add: sanitizedRecentUrls_def normalizeRecentUrlImages_def reject_def uniq_def
      takeRight_def)

section \<open>The source selector: the claims\<close>

lemma world_simps [simp]:
  "warning (logEvent n w) = warning w"
  "selectedImage (logEvent n w) = selectedImage w"
  "shownErrors (logEvent n w) = shownErrors w"
  "afterSelectedCalls (logEvent n w) = afterSelectedCalls w"
  "analyticsEvents (logEvent n w) = analyticsEvents w @ [n]"
  "warning (report e w) = warning w"
  "selectedImage (report e w) = selectedImage w"
  "shownErrors (report e w) = shownErrors w"
  "afterSelectedCalls (report e w) = afterSelectedCalls w"
  "warning (logException e w) = warning w"
  "selectedImage (logException e w) = selectedImage w"
  "shownErrors (logException e w) = shownErrors w"
  "afterSelectedCalls (logException e w) = afterSelectedCalls w"
  "analyticsEvents (logException e w) = analyticsEvents w"
  "warning (showError u w) = warning w"
  "selectedImage (showError u w) = selectedImage w"
  "shownErrors (showError u w) = shownErrors w @ [u]"
  "afterSelectedCalls (showError u w) = afterSelectedCalls w"
  "analyticsEvents (showError u w) = analyticsEvents w"
  by (simp_all add: logEvent_def report_def logException_def showError_def)

text \<open>
  \<open>selectImage\<close> with the truthiness test of \<open>message\<close> resolved in each branch.
\<close>

lemma selectImage_unfold:
  "selectImage en img w =
     (let w1 = (if looksLikeWindowsImage en (path img)
                then logEvent ''Possibly Windows image'' w
                else if \<not> hasMBR img then logEvent ''Missing partition table'' w else w);
          w2 = (if looksLikeWindowsImage en (path img) then
                  (if warning_looksLikeWindowsImage en \<noteq> [] then
                     w1\<lparr>warning := Some \<lparr>message = warning_looksLikeWindowsImage en,
                                       title = Some ''Possible Windows image detected''\<rparr>\<rparr>
                   else w1)
                else if \<not> hasMBR img then
                  (if warning_missingPartitionTable en \<noteq> [] then
                     w1\<lparr>warning := Some \<lparr>message = warning_missingPartitionTable en,
                                       title = Some ''Missing partition table''\<rparr>\<rparr>
                   else w1)
                else w1)
      in case store_rejects en img of
           Some e \<Rightarrow> report e w2
         | None \<Rightarrow> logEvent ''Select image'' (w2\<lparr>selectedImage := Some img\<rparr>))"
  by (simp add: selectImage_def store_selectImage_def Let_def split: option.splits)

text \<open>
  Claim C3. For every image metadata passed to \<open>selectImage\<close> (the two warning
  texts of the message catalogue being non-empty): if the image path looks like a
  Windows image, the warning set is titled \<open>Possible Windows image detected\<close>,
  whatever \<open>hasMBR\<close> is; otherwise, if \<open>hasMBR\<close> is false, it is titled
  \<open>Missing partition table\<close>; otherwise the warning state is left as it was. In
  every one of the three cases the image is handed to the selection state, which
  holds it afterwards unless the store itself rejects the image.
\<close>

theorem selectImage_warning:
  assumes "warning_looksLikeWindowsImage en \<noteq> []"
    and "warning_missingPartitionTable en \<noteq> []"
  shows "warning (selectImage en img w) =
           (if looksLikeWindowsImage en (path img) then
              Some \<lparr>message = warning_looksLikeWindowsImage en,
                    title = Some ''Possible Windows image detected''\<rparr>
            else if \<not> hasMBR img then
              Some \<lparr>message = warning_missingPartitionTable en,
                    title = Some ''Missing partition table''\<rparr>
            else warning w)
         \<and> (store_rejects en img = None
              \<longrightarrow> selectedImage (selectImage en img w) = Some img)"
  using assms by (simp add: selectImage_unfold Let_def split: option.splits)

text \<open>
  A Windows image without a partition table, a raw image without one, and an image
  with one.
\<close>

theorem selectImage_warning_witness:
  "warning (selectImage exampleEnv (exampleImage ''windows.iso'' False) initialWorld) =
     Some \<lparr>message = ''It looks like a Windows image'',
           title = Some ''Possible Windows image detected''\<rparr>
   \<and> selectedImage (selectImage exampleEnv (exampleImage ''windows.iso'' False) initialWorld) =
       Some (exampleImage ''windows.iso'' False)
   \<and> warning (selectImage exampleEnv (exampleImage ''raw.img'' False) initialWorld) =
       Some \<lparr>message = ''It looks like this is not a bootable image'',
             title = Some ''Missing partition table''\<rparr>
   \<and> selectedImage (selectImage exampleEnv (exampleImage ''raw.img'' False) initialWorld) =
       Some (exampleImage ''raw.img'' False)
   \<and> warning (selectImage exampleEnv (exampleImage ''linux.img'' True) initialWorld) = None
   \<and> selectedImage (selectImage exampleEnv (exampleImage ''linux.img'' True) initialWorld) =
       Some (exampleImage ''linux.img'' True)"
  using
    selectImage_warning [of exampleEnv "exampleImage ''windows.iso'' False" initialWorld]
    selectImage_warning [of exampleEnv "exampleImage ''raw.img'' False" initialWorld]
    selectImage_warning [of exampleEnv "exampleImage ''linux.img'' True" initialWorld]
  by (simp add: exampleEnv_def exampleImage_def initialWorld_def)

text \<open>
  Claim C4. When \<open>selectImageByPath\<close> is called with \<open>SourceType\<close> \<open>Http\<close> and the
  image path (as it stands after the network drive step) starts with neither
  \<open>https://\<close> nor \<open>http://\<close>, an \<open>Unsupported protocol\<close> user error is shown and
  logged and nothing else happens: the selected image and the warning are
  unchanged and \<open>afterSelected\<close> is not called.
\<close>

theorem selectImageByPath_unsupported_protocol:
  assumes "SourceType opts = Http"
    and "\<not> prefix ''https://'' (replacedPath en (imagePath opts))"
    and "\<not> prefix ''http://'' (replacedPath en (imagePath opts))"
  shows "shownErrors (selectImageByPath en opts w) =
           shownErrors w @ [UserError ''Unsupported protocol'' (error_unsupportedProtocol en)]
         \<and> analyticsEvents (selectImageByPath en opts w) =
             analyticsEvents w @ [''Unsupported protocol'']
         \<and> selectedImage (selectImageByPath en opts w) = selectedImage w
         \<and> warning (selectImageByPath en opts w) = warning w
         \<and> afterSelectedCalls (selectImageByPath en opts w) = afterSelectedCalls w"
  using assms
  by (simp add: selectImageByPath_def startsWith_prefix Let_def split: sum.splits)

theorem selectImageByPath_unsupported_protocol_witness:
  "selectImageByPath exampleEnv \<lparr>imagePath = ''ftp://host/a.img'', SourceType = Http\<rparr>
     initialWorld
   = initialWorld
       \<lparr>shownErrors :=
          [UserError ''Unsupported protocol'' ''Only http:// and https:// URLs are supported''],
        analyticsEvents := [''Unsupported protocol'']\<rparr>"
  using selectImageByPath_unsupported_protocol
    [of "\<lparr>imagePath = ''ftp://host/a.img'', SourceType = Http\<rparr>" exampleEnv initialWorld]
  by (simp add: selectImageByPath_def replacedPath_def startsWith_def exampleEnv_def
      initialWorld_def logEvent_def showError_def)



text \<open>
  Called as a method of the component, \<open>onSelectImage\<close> hands the path to
  \<open>selectImageByPath\<close> as an \<open>Http\<close> source exactly when the path starts with
  \<open>https://\<close> or \<open>http://\<close>, and as a \<open>File\<close> source otherwise.
\<close>

lemma onSelectImage_on_component:
  "onSelectImage ThisComponent en p w =
     Inr (selectImageByPath en
            \<lparr>imagePath = p,
             SourceType = (if prefix ''https://'' p \<or> prefix ''http://'' p
                           then Http else File)\<rparr> w)"
  by (simp add: onSelectImage_def startsWith_prefix)

text \<open>
  Claim C10 says that every path delivered on the \<open>select-image\<close> channel is
  classified by \<open>onSelectImage\<close> as an \<open>Http\<close> source if and only if it starts
  with \<open>https://\<close> or \<open>http://\<close>, and as a \<open>File\<close> source otherwise. The code
  does not get there: for every path delivered on the channel, URL or not, the
  listener as registered fails with a \<open>TypeError\<close>, no source of either kind is
  handed to \<open>selectImageByPath\<close>, and nothing is selected.
\<close>

theorem onSelectImage_delivered_fails:
  "deliverSelectImage en p w =
     Inl (Error ''TypeError: this.selectImageByPath is not a function'')
   \<and> deliverSelectImage exampleEnv ''http://host/a.img'' initialWorld
       \<noteq> onSelectImage ThisComponent exampleEnv ''http://host/a.img'' initialWorld"
  by (simp add: deliverSelectImage_def onSelectImage_def)

section \<open>The target selector: the claim\<close>

lemma deselectStep_devices:
  "selectedDevices (deselectStep d st) = removeAll (device d) (selectedDevices st)"
  by (simp add: deselectStep_def deselectDrive_def logToggle_def)

lemma fold_deselectStep_devices:
  "selectedDevices (fold deselectStep ds st) =
     filter (\<lambda>x. x \<notin> device ` set ds) (selectedDevices st)"
proof (induction ds arbitrary: st)
  case Nil
  then show ?case by simp
next
  case (Cons d ds)
  have "filter (\<lambda>x. x \<notin> device ` set ds) (removeAll (device d) xs) =
        filter (\<lambda>x. x \<notin> device ` set (d # ds)) xs" for xs
    by (induction xs) auto
  with Cons show ?case by (simp add: deselectStep_devices)
qed

lemma selectStep_devices:
  "set (selectedDevices (selectStep d st)) = insert (device d) (set (selectedDevices st))"
  by (auto simp: selectStep_def selectDrive_def logToggle_def isDriveSelected_def)

lemma fold_selectStep_devices:
  "set (selectedDevices (fold selectStep ts st)) =
     set (selectedDevices st) \<union> device ` set ts"
  by (induction ts arbitrary: st) (auto simp: selectStep_devices)

lemma deselected_devices:
  "device ` set (filter (\<lambda>d. find (\<lambda>t. device t = device d) ts = None) (getSelectedDrives st))
     = {x \<in> set (selectedDevices st). x \<notin> device ` set ts}"
proof -
  have "map device (filter (\<lambda>d. find (\<lambda>t. device t = device d) ts = None)
                      (getSelectedDrives st))
        = filter (\<lambda>x. find (\<lambda>t. device t = x) ts = None) (selectedDevices st)"
    by (simp add: getSelectedDrives_def filter_map comp_def)
  then have "device ` set (filter (\<lambda>d. find (\<lambda>t. device t = device d) ts = None)
                      (getSelectedDrives st))
        = set (filter (\<lambda>x. find (\<lambda>t. device t = x) ts = None) (selectedDevices st))"
    by (metis set_map)
  also have "\<dots> = {x \<in> set (selectedDevices st). x \<notin> device ` set ts}"
    by (auto simp: find_None_iff)
  finally show ?thesis .
qed

text \<open>
  Claim C2. For every selection in the store and every list \<open>modalTargets\<close>, after
  \<open>selectAllTargets\<close> a device is selected if and only if some element of
  \<open>modalTargets\<close> has that device: drives of the store that are not among the
  modal's targets are deselected, and every target of the modal is selected.
\<close>

theorem selectAllTargets_selection:
  "isDriveSelected d (selectAllTargets modalTargets st)
     \<longleftrightarrow> (\<exists>t \<in> set modalTargets. device t = d)"
proof -
  have "set (selectedDevices (selectAllTargets modalTargets st)) = device ` set modalTargets"
    unfolding selectAllTargets_def Let_def fold_selectStep_devices fold_deselectStep_devices
      deselected_devices
    by auto
  then show ?thesis by (auto simp: isDriveSelected_def)
qed

theorem selectAllTargets_selection_witness:
  "selectedDevices
     (selectAllTargets [\<lparr>device = ''/dev/sdb''\<rparr>, \<lparr>device = ''/dev/sdc''\<rparr>]
        \<lparr>selectedDevices = [''/dev/sda'', ''/dev/sdb''], toggleEvents = []\<rparr>)
     = [''/dev/sdb'', ''/dev/sdc'']
   \<and> isDriveSelected ''/dev/sdc''
       (selectAllTargets [\<lparr>device = ''/dev/sdb''\<rparr>, \<lparr>device = ''/dev/sdc''\<rparr>]
          \<lparr>selectedDevices = [''/dev/sda'', ''/dev/sdb''], toggleEvents = []\<rparr>)
   \<and> \<not> isDriveSelected ''/dev/sda''
       (selectAllTargets [\<lparr>device = ''/dev/sdb''\<rparr>, \<lparr>device = ''/dev/sdc''\<rparr>]
          \<lparr>selectedDevices = [''/dev/sda'', ''/dev/sdb''], toggleEvents = []\<rparr>)"
  using selectAllTargets_selection
    [of "''/dev/sdc''" "[\<lparr>device = ''/dev/sdb''\<rparr>, \<lparr>device = ''/dev/sdc''\<rparr>]"
        "\<lparr>selectedDevices = [''/dev/sda'', ''/dev/sdb''], toggleEvents = []\<rparr>"]
  by (simp add: selectAllTargets_def getSelectedDrives_def deselectStep_def selectStep_def
      deselectDrive_def selectDrive_def logToggle_def isDriveSelected_def)

section \<open>The settings dialog: the claim\<close>

text \<open>
  Claim C7. For every settings dictionary and every key, \<open>toggleSetting\<close> writes the
  negation of the dictionary's current value of that key, and nothing else, to the
  settings store; once that write has resolved, the local dictionary holds the
  negated value at the key and every other key is unchanged.
\<close>

theorem toggleSetting_negates:
  assumes "persist setting (js_not (currentSettings st setting)) = None"
  shows "\<exists>st'. toggleSetting persist setting options st = Inr st'
           \<and> settingsStore st' =
               (settingsStore st)(setting \<mapsto> js_not (currentSettings st setting))
           \<and> currentSettings st' setting = Some (js_not (currentSettings st setting))
           \<and> (\<forall>b. currentSettings st setting = Some b
                 \<longrightarrow> currentSettings st' setting = Some (\<not> b))
           \<and> (\<forall>k. k \<noteq> setting \<longrightarrow> currentSettings st' k = currentSettings st k)"
  using assms by (auto simp: toggleSetting_def settings_set_def Let_def)

theorem toggleSetting_negates_witness:
  "(case toggleSetting (\<lambda>k v. None) ''errorReporting'' None
      \<lparr>settingsStore = [''errorReporting'' \<mapsto> True, ''updatesEnabled'' \<mapsto> True],
       currentSettings = [''errorReporting'' \<mapsto> True, ''updatesEnabled'' \<mapsto> True],
       settingEvents = []\<rparr> of
      Inl e \<Rightarrow> False
    | Inr st' \<Rightarrow>
        currentSettings st' ''errorReporting'' = Some False
        \<and> currentSettings st' ''updatesEnabled'' = Some True
        \<and> settingsStore st' ''errorReporting'' = Some False)"
  using toggleSetting_negates
    [of "\<lambda>k v. None" "''errorReporting''"
        "\<lparr>settingsStore = [''errorReporting'' \<mapsto> True, ''updatesEnabled'' \<mapsto> True],
       currentSettings = [''errorReporting'' \<mapsto> True, ''updatesEnabled'' \<mapsto> True],
       settingEvents = []\<rparr>" None]
  by (simp add: toggleSetting_def settings_set_def Let_def)

end
